theory Spec2Isabelle
  imports Complex_Main
begin

section \<open>JavaScript numbers\<close>

text \<open>
  The scalars of \<^verbatim>\<open>TransformMatrix.js\<close> are JavaScript numbers: IEEE 754 doubles. A number
  is a finite real, one of the two infinities, or NaN. Every arithmetic operation rounds
  its exact result to the nearest double, ties to even, and overflows to an infinity; a
  store into the \<^verbatim>\<open>Float32Array\<close> of a matrix rounds once more, to the nearest single.
  Zero carries no sign in the model, so a quotient by zero has the sign IEEE gives it for
  \<open>+0\<close>.
\<close>

datatype number = Fin real | PInf | NInf | NaN

fun signed_infinity :: "real \<Rightarrow> number" where
  "signed_infinity s = (if 0 < s then PInf else if s < 0 then NInf else NaN)"

subsection \<open>Rounding to a binary format\<close>

text \<open>The nearest integer, a tie going to the even one.\<close>

definition round_even :: "real \<Rightarrow> int" where
  "round_even q =
     (if q - of_int \<lfloor>q\<rfloor> < 1 / 2 then \<lfloor>q\<rfloor>
      else if 1 / 2 < q - of_int \<lfloor>q\<rfloor> then \<lfloor>q\<rfloor> + 1
      else if even \<lfloor>q\<rfloor> then \<lfloor>q\<rfloor> else \<lfloor>q\<rfloor> + 1)"

definition pow2 :: "int \<Rightarrow> real" where
  "pow2 k = 2 powr of_int k"

text \<open>
  The exponent of the binade of \<open>x\<close>, not below the least exponent \<open>emin\<close> of the format
  (below it the numbers are subnormal), and the spacing of the format's numbers there,
  for a significand of \<open>p\<close> bits.
\<close>

definition exponent :: "int \<Rightarrow> real \<Rightarrow> int" where
  "exponent emin x = max \<lfloor>log 2 \<bar>x\<bar>\<rfloor> emin"

definition ulp :: "nat \<Rightarrow> int \<Rightarrow> real \<Rightarrow> real" where
  "ulp p emin x = pow2 (exponent emin x - int p + 1)"

definition round_to :: "nat \<Rightarrow> int \<Rightarrow> real \<Rightarrow> real" where
  "round_to p emin x = of_int (round_even (x / ulp p emin x)) * ulp p emin x"

text \<open>
  Rounding to the format of \<open>p\<close> bits with exponents from \<open>emin\<close> to \<open>emax\<close>: a rounded
  value of magnitude \<open>2^(emax + 1)\<close> or more is an infinity.
\<close>

definition ieee_round :: "nat \<Rightarrow> int \<Rightarrow> int \<Rightarrow> real \<Rightarrow> number" where
  "ieee_round p emin emax x =
     (let y = round_to p emin x
      in if pow2 (emax + 1) \<le> \<bar>y\<bar> then signed_infinity x else Fin y)"

definition round_double :: "real \<Rightarrow> number" where
  "round_double x = ieee_round 53 (- 1022) 1023 x"

definition round_single :: "real \<Rightarrow> number" where
  "round_single x = ieee_round 24 (- 126) 127 x"

text \<open>The finite numbers of a format.\<close>

definition representable :: "nat \<Rightarrow> int \<Rightarrow> int \<Rightarrow> real \<Rightarrow> bool" where
  "representable p emin emax x \<longleftrightarrow>
     (\<exists>n j. x = of_int n * pow2 j \<and> \<bar>n\<bar> \<le> 2 ^ p \<and> emin - int p + 1 \<le> j) \<and>
     \<bar>x\<bar> < pow2 (emax + 1)"

subsection \<open>Arithmetic\<close>

instantiation number :: "{uminus, plus, minus, times, inverse, ord}"
begin

fun uminus_number :: "number \<Rightarrow> number" where
  "uminus_number (Fin x) = Fin (- x)"
| "uminus_number PInf = NInf"
| "uminus_number NInf = PInf"
| "uminus_number NaN = NaN"

fun plus_number :: "number \<Rightarrow> number \<Rightarrow> number" where
  "plus_number (Fin x) (Fin y) = round_double (x + y)"
| "plus_number NaN _ = NaN"
| "plus_number _ NaN = NaN"
| "plus_number PInf NInf = NaN"
| "plus_number NInf PInf = NaN"
| "plus_number PInf _ = PInf"
| "plus_number _ PInf = PInf"
| "plus_number NInf _ = NInf"
| "plus_number _ NInf = NInf"

definition minus_number :: "number \<Rightarrow> number \<Rightarrow> number" where
  "minus_number x y = x + (- y)"

fun times_number :: "number \<Rightarrow> number \<Rightarrow> number" where
  "times_number (Fin x) (Fin y) = round_double (x * y)"
| "times_number NaN _ = NaN"
| "times_number _ NaN = NaN"
| "times_number PInf (Fin y) = signed_infinity y"
| "times_number NInf (Fin y) = signed_infinity (- y)"
| "times_number (Fin x) PInf = signed_infinity x"
| "times_number (Fin x) NInf = signed_infinity (- x)"
| "times_number PInf PInf = PInf"
| "times_number PInf NInf = NInf"
| "times_number NInf PInf = NInf"
| "times_number NInf NInf = PInf"

fun divide_number :: "number \<Rightarrow> number \<Rightarrow> number" where
  "divide_number (Fin x) (Fin y) = (if y = 0 then signed_infinity x else round_double (x / y))"
| "divide_number NaN _ = NaN"
| "divide_number _ NaN = NaN"
| "divide_number (Fin x) PInf = Fin 0"
| "divide_number (Fin x) NInf = Fin 0"
| "divide_number PInf (Fin y) = (if y < 0 then NInf else PInf)"
| "divide_number NInf (Fin y) = (if y < 0 then PInf else NInf)"
| "divide_number PInf PInf = NaN"
| "divide_number PInf NInf = NaN"
| "divide_number NInf PInf = NaN"
| "divide_number NInf NInf = NaN"

definition inverse_number :: "number \<Rightarrow> number" where
  "inverse_number x = divide (Fin 1) x"

fun less_number :: "number \<Rightarrow> number \<Rightarrow> bool" where
  "less_number (Fin x) (Fin y) = (x < y)"
| "less_number NaN _ = False"
| "less_number _ NaN = False"
| "less_number _ NInf = False"
| "less_number PInf _ = False"
| "less_number NInf _ = True"
| "less_number _ PInf = True"

fun less_eq_number :: "number \<Rightarrow> number \<Rightarrow> bool" where
  "less_eq_number (Fin x) (Fin y) = (x \<le> y)"
| "less_eq_number NaN _ = False"
| "less_eq_number _ NaN = False"
| "less_eq_number NInf _ = True"
| "less_eq_number _ PInf = True"
| "less_eq_number _ NInf = False"
| "less_eq_number PInf _ = False"

instance ..

end

text \<open>A number in a condition (\<open>if (a || b)\<close>) is true unless it is zero or NaN.\<close>

fun truthy :: "number \<Rightarrow> bool" where
  "truthy (Fin x) = (x \<noteq> 0)"
| "truthy PInf = True"
| "truthy NInf = True"
| "truthy NaN = False"

fun finite_number :: "number \<Rightarrow> bool" where
  "finite_number (Fin x) = True"
| "finite_number PInf = False"
| "finite_number NInf = False"
| "finite_number NaN = False"



subsection \<open>The functions of \<^verbatim>\<open>Math\<close>\<close>

text \<open>
  \<^verbatim>\<open>Math.fround\<close> is the rounding to single precision that a store into a
  \<^verbatim>\<open>Float32Array\<close> makes. The language leaves \<^verbatim>\<open>Math.sqrt\<close>, \<^verbatim>\<open>Math.sin\<close>,
  \<^verbatim>\<open>Math.cos\<close>, \<^verbatim>\<open>Math.acos\<close> and \<^verbatim>\<open>Math.atan\<close> to the implementation as
  approximations of the mathematical functions: the model takes the functions
  themselves, and \<open>\<pi>\<close> for \<^verbatim>\<open>Math.PI\<close>.
\<close>

fun Math_fround :: "number \<Rightarrow> number" where
  "Math_fround (Fin x) = round_single x"
| "Math_fround PInf = PInf"
| "Math_fround NInf = NInf"
| "Math_fround NaN = NaN"

definition Math_PI :: number where
  "Math_PI = Fin pi"

fun Math_sqrt :: "number \<Rightarrow> number" where
  "Math_sqrt (Fin x) = (if x < 0 then NaN else Fin (sqrt x))"
| "Math_sqrt PInf = PInf"
| "Math_sqrt NInf = NaN"
| "Math_sqrt NaN = NaN"

fun Math_sin :: "number \<Rightarrow> number" where
  "Math_sin (Fin x) = Fin (sin x)"
| "Math_sin _ = NaN"

fun Math_cos :: "number \<Rightarrow> number" where
  "Math_cos (Fin x) = Fin (cos x)"
| "Math_cos _ = NaN"

fun Math_acos :: "number \<Rightarrow> number" where
  "Math_acos (Fin x) = (if - 1 \<le> x \<and> x \<le> 1 then Fin (arccos x) else NaN)"
| "Math_acos _ = NaN"

fun Math_atan :: "number \<Rightarrow> number" where
  "Math_atan (Fin x) = Fin (arctan x)"
| "Math_atan PInf = Fin (pi / 2)"
| "Math_atan NInf = Fin (- (pi / 2))"
| "Math_atan NaN = NaN"

section \<open>The data model\<close>

text \<open>
  An element of a \<^verbatim>\<open>Float32Array\<close>: a number that single precision holds, that is, one
  that \<^verbatim>\<open>Math.fround\<close> leaves as it is. \<open>Float32 v\<close> is the element that a store of the
  number \<open>v\<close> leaves in the array, \<open>float32_value\<close> the number that a read gives.
\<close>

typedef float32 = "{v :: number. Math_fround v = v}"
  morphisms float32_value Abs_float32
  by (rule exI[of _ NaN]) simp

definition Float32 :: "number \<Rightarrow> float32" where
  "Float32 v = Abs_float32 (Math_fround v)"

text \<open>
  \<^verbatim>\<open>this.decomposedMatrix\<close>: the constructor creates it with five properties; \<open>skewX\<close>
  and \<open>skewY\<close> exist only once they have been assigned (\<open>None\<close> is \<open>undefined\<close>).
\<close>

record decomposed =
  dm_translateX :: number
  dm_translateY :: number
  dm_scaleX :: number
  dm_scaleY :: number
  dm_rotation :: number
  dm_skewX :: "number option"
  dm_skewY :: "number option"

text \<open>
  A \<^verbatim>\<open>TransformMatrix\<close>: the fields \<open>matrix_0\<close> to \<open>matrix_5\<close> are the elements
  \<^verbatim>\<open>this.matrix[0]\<close> to \<^verbatim>\<open>this.matrix[5]\<close> of its \<^verbatim>\<open>Float32Array\<close>. The elements 6 to 8
  of the array are the constant row \<open>0, 0, 1\<close> that no method touches.
\<close>

record TransformMatrix =
  matrix_0 :: float32
  matrix_1 :: float32
  matrix_2 :: float32
  matrix_3 :: float32
  matrix_4 :: float32
  matrix_5 :: float32
  decomposedMatrix :: decomposed

text \<open>A point-like object: its \<open>x\<close> and \<open>y\<close>.\<close>

record point =
  point_x :: number
  point_y :: number

text \<open>
  Matrices are objects: two parameters of a method may be the same instance. A method
  that takes another matrix works on a store of instances.
\<close>

type_synonym ref = nat

type_synonym heap = "ref \<Rightarrow> TransformMatrix"

text \<open>The constructor: \<^verbatim>\<open>new Float32Array([a, b, c, d, tx, ty, 0, 0, 1])\<close>.\<close>

definition initialize ::
  "number option \<Rightarrow> number option \<Rightarrow> number option \<Rightarrow> number option \<Rightarrow>
   number option \<Rightarrow> number option \<Rightarrow> TransformMatrix" where
  "initialize a0 b0 c0 d0 tx0 ty0 =
     \<lparr> matrix_0 = Float32 (case a0 of None \<Rightarrow> Fin 1 | Some v \<Rightarrow> v),
       matrix_1 = Float32 (case b0 of None \<Rightarrow> Fin 0 | Some v \<Rightarrow> v),
       matrix_2 = Float32 (case c0 of None \<Rightarrow> Fin 0 | Some v \<Rightarrow> v),
       matrix_3 = Float32 (case d0 of None \<Rightarrow> Fin 1 | Some v \<Rightarrow> v),
       matrix_4 = Float32 (case tx0 of None \<Rightarrow> Fin 0 | Some v \<Rightarrow> v),
       matrix_5 = Float32 (case ty0 of None \<Rightarrow> Fin 0 | Some v \<Rightarrow> v),
       decomposedMatrix =
         \<lparr> dm_translateX = Fin 0, dm_translateY = Fin 0, dm_scaleX = Fin 1,
           dm_scaleY = Fin 1, dm_rotation = Fin 0, dm_skewX = None, dm_skewY = None \<rparr> \<rparr>"

section \<open>The accessors\<close>

text \<open>
  The getters \<open>a\<close> to \<open>f\<close> (\<open>tx\<close> and \<open>ty\<close> are \<open>e\<close> and \<open>f\<close>) read the array; the setters
  store into it, as every \<^verbatim>\<open>matrix[i] = v\<close> of the methods does.
\<close>

definition a :: "TransformMatrix \<Rightarrow> number" where
  "a m = float32_value (matrix_0 m)"

definition b :: "TransformMatrix \<Rightarrow> number" where
  "b m = float32_value (matrix_1 m)"

definition c :: "TransformMatrix \<Rightarrow> number" where
  "c m = float32_value (matrix_2 m)"

definition d :: "TransformMatrix \<Rightarrow> number" where
  "d m = float32_value (matrix_3 m)"

definition e :: "TransformMatrix \<Rightarrow> number" where
  "e m = float32_value (matrix_4 m)"

definition f :: "TransformMatrix \<Rightarrow> number" where
  "f m = float32_value (matrix_5 m)"

definition scaleX :: "TransformMatrix \<Rightarrow> number" where
  "scaleX m = Math_sqrt ((a m * a m) + (b m * b m))"

definition scaleY :: "TransformMatrix \<Rightarrow> number" where
  "scaleY m = Math_sqrt ((c m * c m) + (d m * d m))"

text \<open>
  \<open>rotationNormalized\<close> reads the constant \<^verbatim>\<open>MATH_CONST.TAU\<close> of \<^verbatim>\<open>math/const\<close>, a file
  that is not among the sources: the constant is the parameter \<open>TAU\<close> of the accessor.
\<close>

definition rotationNormalized :: "number \<Rightarrow> TransformMatrix \<Rightarrow> number" where
  "rotationNormalized TAU m =
     (if truthy (a m) \<or> truthy (b m) then
        (if b m > Fin 0 then Math_acos (a m / scaleX m) else - Math_acos (a m / scaleX m))
      else if truthy (c m) \<or> truthy (d m) then
        TAU - (if d m > Fin 0 then Math_acos (- c m / scaleY m)
               else - Math_acos (c m / scaleY m))
      else Fin 0)"

section \<open>The methods on one instance\<close>

text \<open>
  A method that touches no other matrix takes the instance and returns it as the call
  leaves it; a method that returns something else than \<open>this\<close> returns the instance and
  its result. The assignments are made one after the other, as in the source.
\<close>

definition loadIdentity :: "TransformMatrix \<Rightarrow> TransformMatrix" where
  "loadIdentity m =
     (let m = m\<lparr>matrix_0 := Float32 (Fin 1)\<rparr>; m = m\<lparr>matrix_1 := Float32 (Fin 0)\<rparr>;
          m = m\<lparr>matrix_2 := Float32 (Fin 0)\<rparr>; m = m\<lparr>matrix_3 := Float32 (Fin 1)\<rparr>;
          m = m\<lparr>matrix_4 := Float32 (Fin 0)\<rparr>; m = m\<lparr>matrix_5 := Float32 (Fin 0)\<rparr>
      in m)"

definition translate :: "TransformMatrix \<Rightarrow> number \<Rightarrow> number \<Rightarrow> TransformMatrix" where
  "translate m x y =
     (let m = m\<lparr>matrix_4 := Float32 (a m * x + c m * y + e m)\<rparr>;
          m = m\<lparr>matrix_5 := Float32 (b m * x + d m * y + f m)\<rparr>
      in m)"


definition invert :: "TransformMatrix \<Rightarrow> TransformMatrix" where
  "invert m =
     (let a0 = a m; b0 = b m; c0 = c m; d0 = d m; tx = e m; ty = f m;
          n = a0 * d0 - b0 * c0;
          m = m\<lparr>matrix_0 := Float32 (d0 / n)\<rparr>;
          m = m\<lparr>matrix_1 := Float32 (- b0 / n)\<rparr>;
          m = m\<lparr>matrix_2 := Float32 (- c0 / n)\<rparr>;
          m = m\<lparr>matrix_3 := Float32 (a0 / n)\<rparr>;
          m = m\<lparr>matrix_4 := Float32 ((c0 * ty - d0 * tx) / n)\<rparr>;
          m = m\<lparr>matrix_5 := Float32 (- (a0 * ty - b0 * tx) / n)\<rparr>
      in m)"

text \<open>
  \<open>src[i]\<close> of a JavaScript array, as a number: an index past the end of the array reads
  \<open>undefined\<close>, which a store into the \<^verbatim>\<open>Float32Array\<close> converts to NaN.
\<close>

definition src_at :: "number list \<Rightarrow> nat \<Rightarrow> number" where
  "src_at src i = (if i < length src then src ! i else NaN)"

definition copyFromArray :: "TransformMatrix \<Rightarrow> number list \<Rightarrow> TransformMatrix" where
  "copyFromArray m src =
     (let m = m\<lparr>matrix_0 := Float32 (src_at src 0)\<rparr>;
          m = m\<lparr>matrix_1 := Float32 (src_at src 1)\<rparr>;
          m = m\<lparr>matrix_2 := Float32 (src_at src 2)\<rparr>;
          m = m\<lparr>matrix_3 := Float32 (src_at src 3)\<rparr>;
          m = m\<lparr>matrix_4 := Float32 (src_at src 4)\<rparr>;
          m = m\<lparr>matrix_5 := Float32 (src_at src 5)\<rparr>
      in m)"

text \<open>
  \<open>out[i] = v\<close> on a JavaScript array: an index past the end extends the array; the
  elements it skips are holes, which read as \<open>undefined\<close> (NaN once stored in a matrix).
\<close>

definition array_set :: "number list \<Rightarrow> nat \<Rightarrow> number \<Rightarrow> number list" where
  "array_set out i v =
     (if i < length out then out[i := v] else out @ replicate (i - length out) NaN @ [v])"

definition copyToArray ::
  "TransformMatrix \<Rightarrow> number list option \<Rightarrow> TransformMatrix \<times> number list" where
  "copyToArray m out =
     (case out of
        None \<Rightarrow> (m, [a m, b m, c m, d m, e m, f m])
      | Some out \<Rightarrow>
          (let out = array_set out 0 (a m); out = array_set out 1 (b m);
               out = array_set out 2 (c m); out = array_set out 3 (d m);
               out = array_set out 4 (e m); out = array_set out 5 (f m)
           in (m, out)))"

definition decomposeMatrix :: "TransformMatrix \<Rightarrow> TransformMatrix" where
  "decomposeMatrix m =
     (let dm = decomposedMatrix m;
          a0 = a m; b0 = b m; c0 = c m; d0 = d m;
          determ = a0 * d0 - b0 * c0;
          scaleX2 = a0 * a0 + b0 * b0;
          scaleY2 = c0 * c0 + d0 * d0;
          dm = dm\<lparr>dm_translateX := e m\<rparr>;
          dm = dm\<lparr>dm_translateY := f m\<rparr>;
          dm = dm\<lparr>dm_scaleX := Fin 1\<rparr>;
          dm = dm\<lparr>dm_scaleY := Fin 1\<rparr>;
          dm = dm\<lparr>dm_rotation := Fin 0\<rparr>;
          dm = dm\<lparr>dm_skewX := Some (Fin 0)\<rparr>;
          dm = dm\<lparr>dm_skewX := Some (Fin 0)\<rparr>;
          dm =
            (if truthy a0 \<or> truthy b0 then
               (let sx = Math_sqrt scaleX2;
                    dm = dm\<lparr>dm_rotation :=
                           (if b0 > Fin 0 then Math_acos (a0 / sx) else - Math_acos (a0 / sx))\<rparr>;
                    dm = dm\<lparr>dm_scaleX := sx\<rparr>;
                    dm = dm\<lparr>dm_scaleY := determ / sx\<rparr>;
                    dm = dm\<lparr>dm_skewX := Some (Math_atan ((a0 * c0 + b0 * d0) / scaleX2))\<rparr>
                in dm)
             else if truthy c0 \<or> truthy d0 then
               (let sy = Math_sqrt scaleY2;
                    dm = dm\<lparr>dm_rotation :=
                           Math_PI * Fin 0.5 -
                             (if d0 > Fin 0 then Math_acos (- c0 / sy) else - Math_acos (c0 / sy))\<rparr>;
                    dm = dm\<lparr>dm_scaleX := determ / sy\<rparr>;
                    dm = dm\<lparr>dm_scaleY := sy\<rparr>;
                    dm = dm\<lparr>dm_skewY := Some (Math_atan ((a0 * c0 + b0 * d0) / scaleY2))\<rparr>
                in dm)
             else
               (let dm = dm\<lparr>dm_rotation := Fin 0\<rparr>;
                    dm = dm\<lparr>dm_scaleX := Fin 0\<rparr>;
                    dm = dm\<lparr>dm_scaleY := Fin 0\<rparr>
                in dm))
      in m\<lparr>decomposedMatrix := dm\<rparr>)"

text \<open>\<open>skewX\<close> and \<open>skewY\<close> are optional parameters: \<open>None\<close> is an omitted argument.\<close>

definition applyITRS ::
  "TransformMatrix \<Rightarrow> number \<Rightarrow> number \<Rightarrow> number \<Rightarrow> number \<Rightarrow> number \<Rightarrow>
   number option \<Rightarrow> number option \<Rightarrow> TransformMatrix" where
  "applyITRS m x y rotation scale_x scale_y skewX skewY =
     (let skewX = (case skewX of None \<Rightarrow> Fin 0 | Some v \<Rightarrow> v);
          skewY = (case skewY of None \<Rightarrow> Fin 0 | Some v \<Rightarrow> v);
          m = m\<lparr>matrix_4 := Float32 x\<rparr>;
          m = m\<lparr>matrix_5 := Float32 y\<rparr>;
          m = m\<lparr>matrix_0 := Float32 (Math_cos (rotation - skewY) * scale_x)\<rparr>;
          m = m\<lparr>matrix_1 := Float32 (Math_sin (rotation - skewY) * scale_x)\<rparr>;
          m = m\<lparr>matrix_2 := Float32 (- Math_sin (rotation + skewX) * scale_y)\<rparr>;
          m = m\<lparr>matrix_3 := Float32 (Math_cos (rotation + skewX) * scale_y)\<rparr>
      in m)"

text \<open>
  Modelled from the spec: \<^verbatim>\<open>new Vector2()\<close> of \<^verbatim>\<open>math/Vector2\<close>, which is not among the
  sources; the minimal \<open>{x, y}\<close> pair of the spec, created at the origin.
\<close>

definition Vector2 :: point where
  "Vector2 = \<lparr>point_x = Fin 0, point_y = Fin 0\<rparr>"

definition applyInverse ::
  "TransformMatrix \<Rightarrow> number \<Rightarrow> number \<Rightarrow> point option \<Rightarrow> TransformMatrix \<times> point" where
  "applyInverse m x y output =
     (let output = (case output of None \<Rightarrow> Vector2 | Some p \<Rightarrow> p);
          a0 = a m; b0 = b m; c0 = c m; d0 = d m; tx = e m; ty = f m;
          id = Fin 1 / ((a0 * d0) + (c0 * - b0));
          output = output\<lparr>point_x :=
            (d0 * id * x) + (- c0 * id * y) + (((ty * c0) - (tx * d0)) * id)\<rparr>;
          output = output\<lparr>point_y :=
            (a0 * id * y) + (- b0 * id * x) + (((- ty * a0) + (tx * b0)) * id)\<rparr>
      in (m, output))"

section \<open>The methods that take another matrix\<close>

text \<open>
  \<open>multiply\<close> reads \<open>this\<close> and \<open>rhs\<close>, then writes the destination through its setters:
  \<open>out\<close> when it is given (\<open>Some\<close>), \<open>this\<close> otherwise. It returns the destination.
\<close>

definition multiply :: "heap \<Rightarrow> ref \<Rightarrow> ref \<Rightarrow> ref option \<Rightarrow> heap \<times> ref" where
  "multiply h this rhs out =
     (let matrix = h this; source = h rhs;
          localA = a matrix; localB = b matrix; localC = c matrix;
          localD = d matrix; localE = e matrix; localF = f matrix;
          sourceA = a source; sourceB = b source; sourceC = c source;
          sourceD = d source; sourceE = e source; sourceF = f source;
          destinationMatrix = (case out of None \<Rightarrow> this | Some r \<Rightarrow> r);
          h = h(destinationMatrix :=
                (h destinationMatrix)\<lparr>matrix_0 := Float32 ((sourceA * localA) + (sourceB * localC))\<rparr>);
          h = h(destinationMatrix :=
                (h destinationMatrix)\<lparr>matrix_1 := Float32 ((sourceA * localB) + (sourceB * localD))\<rparr>);
          h = h(destinationMatrix :=
                (h destinationMatrix)\<lparr>matrix_2 := Float32 ((sourceC * localA) + (sourceD * localC))\<rparr>);
          h = h(destinationMatrix :=
                (h destinationMatrix)\<lparr>matrix_3 := Float32 ((sourceC * localB) + (sourceD * localD))\<rparr>);
          h = h(destinationMatrix :=
                (h destinationMatrix)\<lparr>matrix_4 := Float32 ((sourceE * localA) + (sourceF * localC) + localE)\<rparr>);
          h = h(destinationMatrix :=
                (h destinationMatrix)\<lparr>matrix_5 := Float32 ((sourceE * localB) + (sourceF * localD) + localF)\<rparr>)
      in (h, destinationMatrix))"

definition multiplyWithOffset :: "heap \<Rightarrow> ref \<Rightarrow> ref \<Rightarrow> number \<Rightarrow> number \<Rightarrow> heap" where
  "multiplyWithOffset h this src offsetX offsetY =
     (let matrix = h this; otherMatrix = h src;
          a0 = a matrix; b0 = b matrix; c0 = c matrix;
          d0 = d matrix; tx0 = e matrix; ty0 = f matrix;
          pse = offsetX * a0 + offsetY * c0 + tx0;
          psf = offsetX * b0 + offsetY * d0 + ty0;
          a1 = a otherMatrix; b1 = b otherMatrix; c1 = c otherMatrix;
          d1 = d otherMatrix; tx1 = e otherMatrix; ty1 = f otherMatrix;
          h = h(this := (h this)\<lparr>matrix_0 := Float32 (a1 * a0 + b1 * c0)\<rparr>);
          h = h(this := (h this)\<lparr>matrix_1 := Float32 (a1 * b0 + b1 * d0)\<rparr>);
          h = h(this := (h this)\<lparr>matrix_2 := Float32 (c1 * a0 + d1 * c0)\<rparr>);
          h = h(this := (h this)\<lparr>matrix_3 := Float32 (c1 * b0 + d1 * d0)\<rparr>);
          h = h(this := (h this)\<lparr>matrix_4 := Float32 (tx1 * a0 + ty1 * c0 + pse)\<rparr>);
          h = h(this := (h this)\<lparr>matrix_5 := Float32 (tx1 * b0 + ty1 * d0 + psf)\<rparr>)
      in h)"

text \<open>A call of a method of one instance, on the instance \<open>this\<close> of the store.\<close>

definition call :: "heap \<Rightarrow> ref \<Rightarrow> (TransformMatrix \<Rightarrow> TransformMatrix) \<Rightarrow> heap" where
  "call h this method = h(this := method (h this))"

section \<open>Facts about rounding\<close>

lemma round_even_of_int [simp]: "round_even (of_int n) = n"
  by (simp add: round_even_def)

lemma round_even_0 [simp]: "round_even 0 = 0"
  by (simp add: round_even_def)

lemma round_even_ge_floor: "\<lfloor>q\<rfloor> \<le> round_even q"
  by (simp add: round_even_def)

lemma round_even_le_floor1: "round_even q \<le> \<lfloor>q\<rfloor> + 1"
  by (simp add: round_even_def)

lemma round_even_mono:
  assumes le: "q \<le> q'"
  shows "round_even q \<le> round_even q'"
proof (cases "\<lfloor>q\<rfloor> = \<lfloor>q'\<rfloor>")
  case True
  with le show ?thesis by (auto simp: round_even_def)
next
  case False
  moreover have "\<lfloor>q\<rfloor> \<le> \<lfloor>q'\<rfloor>" using le by (rule floor_mono)
  ultimately have "\<lfloor>q\<rfloor> + 1 \<le> \<lfloor>q'\<rfloor>" by simp
  with round_even_le_floor1[of q] round_even_ge_floor[of q'] show ?thesis by linarith
qed

lemma round_even_uminus: "round_even (- q) = - round_even q"
proof (cases "q = of_int \<lfloor>q\<rfloor>")
  case True
  then have "- q = of_int (- \<lfloor>q\<rfloor>)" by simp
  then have "round_even (- q) = - \<lfloor>q\<rfloor>" by (simp only: round_even_of_int)
  moreover have "round_even q = \<lfloor>q\<rfloor>" using True by (metis round_even_of_int)
  ultimately show ?thesis by simp
next
  case False
  then have fl: "\<lfloor>- q\<rfloor> = - \<lfloor>q\<rfloor> - 1"
    by (simp add: floor_minus ceiling_altdef)
  show ?thesis
    unfolding round_even_def fl by (auto simp: algebra_simps)
qed

lemma round_even_ge_int: "of_int k \<le> q \<Longrightarrow> k \<le> round_even q"
  using round_even_mono[of "of_int k" q] by simp

lemma round_even_le_int: "q \<le> of_int k \<Longrightarrow> round_even q \<le> k"
  using round_even_mono[of q "of_int k"] by simp

lemma pow2_pos [simp]: "0 < pow2 k"
  by (simp add: pow2_def)

lemma pow2_ge_0 [simp]: "0 \<le> pow2 k"
  by (simp add: pow2_def)

lemma pow2_nonzero [simp]: "pow2 k \<noteq> 0"
  by (simp add: pow2_def)

lemma pow2_add: "pow2 (i + j) = pow2 i * pow2 j"
  by (simp add: pow2_def powr_add)

lemma pow2_diff: "pow2 (i - j) = pow2 i / pow2 j"
  by (simp add: pow2_def powr_diff)

lemma pow2_0 [simp]: "pow2 0 = 1"
  by (simp add: pow2_def)

lemma pow2_le_iff [simp]: "pow2 i \<le> pow2 j \<longleftrightarrow> i \<le> j"
  by (simp add: pow2_def)

lemma pow2_less_iff [simp]: "pow2 i < pow2 j \<longleftrightarrow> i < j"
  by (simp add: pow2_def)

lemma pow2_nat: "0 \<le> k \<Longrightarrow> pow2 k = of_int (2 ^ nat k)"
  by (simp add: pow2_def powr_real_of_int)

lemma pow2_int: "pow2 (int n) = 2 ^ n"
  by (simp add: pow2_def powr_realpow)

lemma exponent_uminus [simp]: "exponent emin (- x) = exponent emin x"
  by (simp add: exponent_def)

lemma exponent_ge: "emin \<le> exponent emin x"
  by (simp add: exponent_def)

lemma exponent_bounds:
  assumes "x \<noteq> 0"
  shows "pow2 \<lfloor>log 2 \<bar>x\<bar>\<rfloor> \<le> \<bar>x\<bar>" and "\<bar>x\<bar> < pow2 (\<lfloor>log 2 \<bar>x\<bar>\<rfloor> + 1)"
  using floor_log_eq_powr_iff[of "\<bar>x\<bar>" 2 "\<lfloor>log 2 \<bar>x\<bar>\<rfloor>"] assms
  by (simp_all add: pow2_def)

lemma exponent_upper: "\<bar>x\<bar> < pow2 (exponent emin x + 1)"
proof (cases "x = 0")
  case True
  then show ?thesis by simp
next
  case False
  have "\<bar>x\<bar> < pow2 (\<lfloor>log 2 \<bar>x\<bar>\<rfloor> + 1)" by (rule exponent_bounds[OF False])
  also have "\<dots> \<le> pow2 (exponent emin x + 1)" by (simp add: exponent_def)
  finally show ?thesis .
qed

lemma exponent_mono:
  assumes "0 < x" "x \<le> y"
  shows "exponent emin x \<le> exponent emin y"
proof -
  have "log 2 \<bar>x\<bar> \<le> log 2 \<bar>y\<bar>" using assms by simp
  then have "\<lfloor>log 2 \<bar>x\<bar>\<rfloor> \<le> \<lfloor>log 2 \<bar>y\<bar>\<rfloor>" by (rule floor_mono)
  then show ?thesis by (simp add: exponent_def)
qed

lemma exponent_eq:
  assumes "x \<noteq> 0" "pow2 k \<le> \<bar>x\<bar>" "\<bar>x\<bar> < pow2 (k + 1)" "emin \<le> k"
  shows "exponent emin x = k"
proof -
  have "\<lfloor>log 2 \<bar>x\<bar>\<rfloor> = k"
    using floor_log_eq_powr_iff[of "\<bar>x\<bar>" 2 k] assms by (simp add: pow2_def)
  then show ?thesis using assms(4) by (simp add: exponent_def)
qed

lemma ulp_pos [simp]: "0 < ulp p emin x"
  by (simp add: ulp_def)

lemma ulp_nonneg [simp]: "0 \<le> ulp p emin x"
  by (simp add: ulp_def)

lemma ulp_uminus [simp]: "ulp p emin (- x) = ulp p emin x"
  by (simp add: ulp_def)

lemma ulp_times_pow: "of_int (2 ^ p) * ulp p emin x = pow2 (exponent emin x + 1)"
  unfolding ulp_def using pow2_add[of "int p" "exponent emin x - int p + 1"]
  by (simp add: pow2_int)

lemma round_to_uminus: "round_to p emin (- x) = - round_to p emin x"
  by (simp add: round_to_def round_even_uminus)

lemma round_to_0 [simp]: "round_to p emin 0 = 0"
  by (simp add: round_to_def)

lemma round_to_nonneg:
  assumes "0 \<le> x"
  shows "0 \<le> round_to p emin x"
proof -
  have "0 \<le> x / ulp p emin x" using assms by simp
  then have "0 \<le> round_even (x / ulp p emin x)"
    using round_even_ge_int[of 0 "x / ulp p emin x"] by simp
  then show ?thesis by (simp add: round_to_def)
qed

lemma round_to_nonpos: "x \<le> 0 \<Longrightarrow> round_to p emin x \<le> 0"
  using round_to_nonneg[of "- x" p emin] by (simp add: round_to_uminus)

text \<open>Rounding is monotone.\<close>

lemma round_to_mono_pos:
  assumes p: "0 < p" and x: "0 < x" and xy: "x \<le> y"
  shows "round_to p emin x \<le> round_to p emin y"
proof (cases "exponent emin x = exponent emin y")
  case True
  then have u: "ulp p emin x = ulp p emin y" by (simp add: ulp_def)
  have "x / ulp p emin y \<le> y / ulp p emin y"
    by (rule divide_right_mono[OF xy]) simp
  then have "round_even (x / ulp p emin y) \<le> round_even (y / ulp p emin y)"
    by (rule round_even_mono)
  then show ?thesis
    unfolding round_to_def u by (simp add: mult_right_mono)
next
  case False
  with exponent_mono[OF x xy, of emin] have lt: "exponent emin x + 1 \<le> exponent emin y"
    by simp
  have "x \<le> pow2 (exponent emin x + 1)"
    using exponent_upper[of x emin] x by simp
  then have "x \<le> of_int (2 ^ p) * ulp p emin x"
    unfolding ulp_times_pow .
  then have "x / ulp p emin x \<le> of_int (2 ^ p)"
    by (simp add: pos_divide_le_eq)
  then have "round_even (x / ulp p emin x) \<le> 2 ^ p"
    by (rule round_even_le_int)
  then have "of_int (round_even (x / ulp p emin x)) \<le> (of_int (2 ^ p) :: real)"
    by linarith
  then have "of_int (round_even (x / ulp p emin x)) * ulp p emin x
      \<le> of_int (2 ^ p) * ulp p emin x"
    by (rule mult_right_mono) simp
  then have 1: "round_to p emin x \<le> pow2 (exponent emin x + 1)"
    by (simp only: round_to_def ulp_times_pow)
  have ey: "exponent emin y = \<lfloor>log 2 \<bar>y\<bar>\<rfloor>"
    using lt exponent_ge[of emin x] by (simp add: exponent_def)
  have y0: "y \<noteq> 0" using x xy by simp
  have py: "pow2 (exponent emin y) \<le> y"
    using exponent_bounds(1)[OF y0] x xy by (simp add: ey)
  have ip: "int (p - 1) = int p - 1" using p by simp
  have "pow2 (exponent emin y) = pow2 (int (p - 1)) * ulp p emin y"
    unfolding ulp_def pow2_add[symmetric] ip by simp
  then have half: "pow2 (exponent emin y) = of_int (2 ^ (p - 1)) * ulp p emin y"
    by (simp add: pow2_int)
  from py have "of_int (2 ^ (p - 1)) \<le> y / ulp p emin y"
    unfolding half by (simp add: pos_le_divide_eq)
  then have "2 ^ (p - 1) \<le> round_even (y / ulp p emin y)"
    by (rule round_even_ge_int)
  then have "(of_int (2 ^ (p - 1)) :: real) \<le> of_int (round_even (y / ulp p emin y))"
    by linarith
  then have 2: "pow2 (exponent emin y) \<le> round_to p emin y"
    unfolding round_to_def half by (simp add: mult_right_mono)
  have "pow2 (exponent emin x + 1) \<le> pow2 (exponent emin y)"
    using lt by simp
  with 1 2 show ?thesis by linarith
qed

lemma round_to_mono:
  assumes p: "0 < p" and xy: "x \<le> y"
  shows "round_to p emin x \<le> round_to p emin y"
proof -
  consider "0 < x" | "x \<le> 0" "0 \<le> y" | "y < 0" by linarith
  then show ?thesis
  proof cases
    case 1
    then show ?thesis using round_to_mono_pos[OF p _ xy] by simp
  next
    case 2
    with round_to_nonpos[of x p emin] round_to_nonneg[of y p emin] show ?thesis by linarith
  next
    case 3
    then have "0 < - y" "- y \<le> - x" using xy by simp_all
    from round_to_mono_pos[OF p this] show ?thesis by (simp add: round_to_uminus)
  qed
qed

text \<open>A number of the format is its own rounding.\<close>

lemma round_to_exact:
  assumes p: "0 < p" and x: "x = of_int n * pow2 j" and n: "\<bar>n\<bar> \<le> 2 ^ p"
    and j: "emin - int p + 1 \<le> j"
  shows "round_to p emin x = x"
proof (cases "x = 0")
  case True
  then show ?thesis by simp
next
  case False
  define t where "t = exponent emin x - int p + 1"
  have u: "ulp p emin x = pow2 t" by (simp add: ulp_def t_def)
  have "\<exists>k. x / pow2 t = of_int k"
  proof (cases "t \<le> j")
    case True
    have "x / pow2 t = of_int n * pow2 (j - t)"
      by (simp add: x pow2_diff)
    also have "\<dots> = of_int (n * 2 ^ nat (j - t))"
      using True by (simp add: pow2_nat)
    finally show ?thesis ..
  next
    case tj: False
    then have "emin < exponent emin x" using j by (simp add: t_def)
    then have ex: "exponent emin x = \<lfloor>log 2 \<bar>x\<bar>\<rfloor>" by (simp add: exponent_def)
    have ax: "\<bar>x\<bar> = of_int \<bar>n\<bar> * pow2 j"
      by (simp add: x abs_mult)
    have pe: "pow2 (exponent emin x) \<le> \<bar>x\<bar>"
      using exponent_bounds(1)[OF False] by (simp add: ex)
    note pe
    also have "\<bar>x\<bar> \<le> of_int (2 ^ p) * pow2 j"
    proof -
      have "(of_int \<bar>n\<bar> :: real) \<le> of_int (2 ^ p)"
        using n by (simp only: of_int_le_iff)
      then show ?thesis
        unfolding ax by (rule mult_right_mono) simp
    qed
    also have "\<dots> = pow2 (int p + j)"
      by (simp add: pow2_add pow2_int)
    finally have "exponent emin x \<le> int p + j" by simp
    with tj have tj1: "t = j + 1" and ee: "exponent emin x = int p + j"
      by (simp_all add: t_def)
    have "pow2 (int p + j) \<le> of_int \<bar>n\<bar> * pow2 j"
      using pe unfolding ee ax .
    then have "(2::real) ^ p \<le> of_int \<bar>n\<bar>"
      by (simp add: pow2_add pow2_int)
    then have "2 ^ p \<le> \<bar>n\<bar>"
      by (metis of_int_le_iff of_int_numeral of_int_power)
    with n have an: "\<bar>n\<bar> = 2 ^ p" by simp
    then have "even n" using p by (metis even_abs_add_iff even_add even_power even_numeral)
    then obtain k where k: "n = 2 * k" by (elim evenE)
    have "x / pow2 t = of_int n * pow2 j / (pow2 j * pow2 1)"
      by (simp add: x tj1 pow2_add)
    also have "\<dots> = of_int k"
      by (simp add: k pow2_def)
    finally show ?thesis ..
  qed
  then obtain k where k: "x / pow2 t = of_int k" ..
  then have "x = of_int k * pow2 t" by (simp add: field_simps)
  then show ?thesis
    unfolding round_to_def u k by simp
qed

lemma round_to_form:
  "\<exists>k. round_to p emin x = of_int k * pow2 (exponent emin x - int p + 1) \<and> \<bar>k\<bar> \<le> 2 ^ p"
proof -
  have "\<bar>x\<bar> \<le> of_int (2 ^ p) * ulp p emin x"
    unfolding ulp_times_pow using exponent_upper[of x emin] by simp
  then have bd: "\<bar>x\<bar> / ulp p emin x \<le> of_int (2 ^ p)"
    by (simp add: pos_divide_le_eq)
  have "x / ulp p emin x \<le> \<bar>x\<bar> / ulp p emin x"
    by (rule divide_right_mono) simp_all
  moreover have "(- \<bar>x\<bar>) / ulp p emin x \<le> x / ulp p emin x"
    by (rule divide_right_mono) simp_all
  ultimately have "x / ulp p emin x \<le> of_int (2 ^ p)" "of_int (- (2 ^ p)) \<le> x / ulp p emin x"
    using bd by simp_all
  then have "round_even (x / ulp p emin x) \<le> 2 ^ p" "- (2 ^ p) \<le> round_even (x / ulp p emin x)"
    by (auto intro: round_even_le_int round_even_ge_int)
  then have "\<bar>round_even (x / ulp p emin x)\<bar> \<le> 2 ^ p" by linarith
  then show ?thesis
    unfolding round_to_def ulp_def by blast
qed

lemma representable_round_to:
  assumes "\<bar>round_to p emin x\<bar> < pow2 (emax + 1)"
  shows "representable p emin emax (round_to p emin x)"
proof -
  from round_to_form[of p emin x] obtain k where
    "round_to p emin x = of_int k * pow2 (exponent emin x - int p + 1)" "\<bar>k\<bar> \<le> 2 ^ p"
    by blast
  moreover have "emin - int p + 1 \<le> exponent emin x - int p + 1"
    using exponent_ge[of emin x] by simp
  ultimately show ?thesis
    unfolding representable_def using assms by blast
qed

lemma round_to_representable:
  "0 < p \<Longrightarrow> representable p emin emax x \<Longrightarrow> round_to p emin x = x"
  unfolding representable_def using round_to_exact by blast

lemma round_to_eval:
  assumes "x \<noteq> 0" "pow2 k \<le> \<bar>x\<bar>" "\<bar>x\<bar> < pow2 (k + 1)" "emin \<le> k"
  shows "round_to p emin x =
           of_int (round_even (x / pow2 (k - int p + 1))) * pow2 (k - int p + 1)"
  by (simp add: round_to_def ulp_def exponent_eq[OF assms])

lemma ieee_round_exact:
  assumes "0 < p" "representable p emin emax x"
  shows "ieee_round p emin emax x = Fin x"
proof -
  have "round_to p emin x = x"
    using assms by (rule round_to_representable)
  moreover have "\<not> pow2 (emax + 1) \<le> \<bar>x\<bar>"
    using assms(2) by (simp add: representable_def not_le)
  ultimately show ?thesis by (simp add: ieee_round_def)
qed

lemma ieee_round_uminus: "ieee_round p emin emax (- x) = - ieee_round p emin emax x"
  by (simp add: ieee_round_def round_to_uminus Let_def)

lemma ieee_round_representable:
  assumes "ieee_round p emin emax x = Fin y"
  shows "representable p emin emax y"
proof -
  from assms have "y = round_to p emin x" "\<bar>round_to p emin x\<bar> < pow2 (emax + 1)"
    by (auto simp: ieee_round_def Let_def split: if_splits)
  then show ?thesis using representable_round_to by simp
qed

lemma ieee_round_idem:
  "0 < p \<Longrightarrow> ieee_round p emin emax x = Fin y \<Longrightarrow> ieee_round p emin emax y = Fin y"
  using ieee_round_exact ieee_round_representable by blast

lemma ieee_round_not_NaN [simp]: "ieee_round p emin emax x \<noteq> NaN"
proof (cases "x = 0")
  case True
  then show ?thesis by (simp add: ieee_round_def not_le)
next
  case False
  then show ?thesis by (simp add: ieee_round_def Let_def)
qed

lemma ieee_round_mono:
  assumes p: "0 < p" and xy: "x \<le> y"
  shows "ieee_round p emin emax x \<le> ieee_round p emin emax y"
proof -
  note r = round_to_mono[OF p xy, of emin]
  have sx: "0 \<le> x \<Longrightarrow> 0 \<le> round_to p emin x" "x \<le> 0 \<Longrightarrow> round_to p emin x \<le> 0"
    and sy: "0 \<le> y \<Longrightarrow> 0 \<le> round_to p emin y" "y \<le> 0 \<Longrightarrow> round_to p emin y \<le> 0"
    by (simp_all add: round_to_nonneg round_to_nonpos)
  have pp: "\<not> pow2 (emax + 1) \<le> 0" by (simp add: not_le)
  show ?thesis
    unfolding ieee_round_def Let_def
    using r sx sy pp xy by (auto simp: abs_if split: if_splits)
qed

section \<open>Facts about numbers\<close>

lemma round_double_mono: "x \<le> y \<Longrightarrow> round_double x \<le> round_double y"
  by (simp add: round_double_def ieee_round_mono)

lemma round_double_uminus: "round_double (- x) = - round_double x"
  by (simp add: round_double_def ieee_round_uminus)

lemma round_double_not_NaN [simp]: "round_double x \<noteq> NaN"
  by (simp add: round_double_def)

lemma round_single_not_NaN [simp]: "round_single x \<noteq> NaN"
  by (simp add: round_single_def)

lemma representable_of_int:
  assumes "\<bar>n\<bar> \<le> 2 ^ p" "emin - int p + 1 \<le> 0" "int p < emax + 1"
  shows "representable p emin emax (of_int n)"
proof -
  have "\<bar>of_int n :: real\<bar> \<le> of_int (2 ^ p)"
    using assms(1) by (simp only: of_int_abs[symmetric] of_int_le_iff)
  also have "\<dots> = pow2 (int p)" by (simp add: pow2_int)
  also have "\<dots> < pow2 (emax + 1)" using assms(3) by simp
  finally have "\<bar>of_int n :: real\<bar> < pow2 (emax + 1)" .
  moreover have "(of_int n :: real) = of_int n * pow2 0" by simp
  ultimately show ?thesis
    unfolding representable_def using assms(1,2) by blast
qed

lemma round_double_of_int: "\<bar>n\<bar> \<le> 2 ^ 53 \<Longrightarrow> round_double (of_int n) = Fin (of_int n)"
  unfolding round_double_def by (rule ieee_round_exact) (simp_all add: representable_of_int)

lemma round_single_of_int: "\<bar>n\<bar> \<le> 2 ^ 24 \<Longrightarrow> round_single (of_int n) = Fin (of_int n)"
  unfolding round_single_def by (rule ieee_round_exact) (simp_all add: representable_of_int)

lemma round_double_numeral [simp]:
  "(numeral k :: int) \<le> 9007199254740992 \<Longrightarrow> round_double (numeral k) = Fin (numeral k)"
  using round_double_of_int[of "numeral k"] by simp

lemma round_double_neg_numeral [simp]:
  "(numeral k :: int) \<le> 9007199254740992 \<Longrightarrow> round_double (- numeral k) = Fin (- numeral k)"
  using round_double_of_int[of "- numeral k"] by simp

lemma round_double_0 [simp]: "round_double 0 = Fin 0"
  using round_double_of_int[of 0] by simp

lemma round_double_1 [simp]: "round_double 1 = Fin 1"
  using round_double_of_int[of 1] by simp

lemma round_double_neg_1 [simp]: "round_double (- 1) = Fin (- 1)"
  using round_double_of_int[of "- 1"] by simp

lemma round_single_numeral [simp]:
  "(numeral k :: int) \<le> 16777216 \<Longrightarrow> round_single (numeral k) = Fin (numeral k)"
  using round_single_of_int[of "numeral k"] by simp

lemma round_single_neg_numeral [simp]:
  "(numeral k :: int) \<le> 16777216 \<Longrightarrow> round_single (- numeral k) = Fin (- numeral k)"
  using round_single_of_int[of "- numeral k"] by simp

lemma round_single_0 [simp]: "round_single 0 = Fin 0"
  using round_single_of_int[of 0] by simp

lemma round_single_1 [simp]: "round_single 1 = Fin 1"
  using round_single_of_int[of 1] by simp

lemma round_single_neg_1 [simp]: "round_single (- 1) = Fin (- 1)"
  using round_single_of_int[of "- 1"] by simp

lemma Fin_minus [simp]: "Fin x - Fin y = round_double (x - y)"
  by (simp add: minus_number_def)

lemma times_number_commute: "(x::number) * y = y * x"
  by (cases x; cases y) (simp_all add: mult.commute)

lemma times_uminus_right: "(x::number) * (- y) = - (x * y)"
  by (cases x; cases y) (simp_all add: round_double_uminus)

lemma finite_number_iff: "finite_number x \<longleftrightarrow> (\<exists>r. x = Fin r)"
  by (cases x) simp_all

lemma Fin_le_imp: "Fin r \<le> x \<Longrightarrow> x \<le> Fin s \<Longrightarrow> \<exists>w. x = Fin w \<and> r \<le> w \<and> w \<le> s"
  by (cases x) simp_all

text \<open>A quotient by zero is never finite, and a non-finite operand makes a sum or a
  product non-finite; so does narrowing to single precision.\<close>

lemma not_finite_div0: "\<not> finite_number (x / Fin 0)"
  by (cases x) simp_all

lemma not_finite_times1: "\<not> finite_number x \<Longrightarrow> \<not> finite_number (x * y)"
  by (cases x; cases y) simp_all

lemma not_finite_plus1: "\<not> finite_number x \<Longrightarrow> \<not> finite_number (x + y)"
  by (cases x; cases y) simp_all

lemma not_finite_times_PInf: "\<not> finite_number (x * PInf)"
  by (cases x) simp_all

lemma not_finite_fround: "\<not> finite_number x \<Longrightarrow> \<not> finite_number (Math_fround x)"
  by (cases x) simp_all

section \<open>Facts about the elements of a \<^verbatim>\<open>Float32Array\<close>\<close>

lemma Math_fround_idem [simp]: "Math_fround (Math_fround v) = Math_fround v"
proof (cases v)
  case (Fin x)
  show ?thesis
  proof (cases "round_single x")
    case (Fin y)
    then show ?thesis
      using ieee_round_idem[of 24 "- 126" 127 x y] \<open>v = Fin x\<close>
      by (simp add: round_single_def)
  qed (simp_all add: \<open>v = Fin x\<close>)
qed simp_all

lemma float32_value_Float32 [simp]: "float32_value (Float32 v) = Math_fround v"
  by (simp add: Float32_def Abs_float32_inverse)

lemma Math_fround_float32_value [simp]: "Math_fround (float32_value w) = float32_value w"
  using float32_value[of w] by simp

lemma Float32_float32_value [simp]: "Float32 (float32_value w) = w"
  by (simp add: Float32_def float32_value_inverse)

lemma float32_representable:
  "float32_value w = Fin x \<Longrightarrow> representable 24 (- 126) 127 x"
  using Math_fround_float32_value[of w] ieee_round_representable[of 24 "- 126" 127 x x]
  by (simp add: round_single_def)

text \<open>The getters after a store.\<close>

lemmas getters = a_def b_def c_def d_def e_def f_def

section \<open>Roundings of particular numbers\<close>

lemma pow2_numeral: "pow2 (numeral k) = 2 ^ numeral k"
  by (simp add: pow2_def)

lemma pow2_1: "pow2 1 = 2"
  by (simp add: pow2_def)

text \<open>\<open>2^24 + 1\<close> and \<open>4097 * 4097\<close> lie half-way between two singles.\<close>

lemma round_single_16777217: "round_single 16777217 = Fin 16777216"
proof -
  have "round_to 24 (- 126) 16777217 = 16777216"
    by (subst round_to_eval[where k = 24])
      (simp_all add: pow2_numeral pow2_1 round_even_def)
  then show ?thesis
    by (simp add: round_single_def ieee_round_def pow2_numeral)
qed

lemma round_single_16785409: "round_single 16785409 = Fin 16785408"
proof -
  have "round_to 24 (- 126) 16785409 = 16785408"
    by (subst round_to_eval[where k = 24])
      (simp_all add: pow2_numeral pow2_1 round_even_def)
  then show ?thesis
    by (simp add: round_single_def ieee_round_def pow2_numeral)
qed




text \<open>Reading an array that \<open>array_set\<close> has written.\<close>

lemma src_at_array_set: "src_at (array_set out i v) j = (if j = i then v else src_at out j)"
  by (auto simp: src_at_def array_set_def nth_append nth_list_update)

section \<open>Composition\<close>

text \<open>
  C1, as stated: \<open>multiply\<close> writes exactly \<open>a' = rhs.a*a + rhs.b*c\<close> and the five other
  values. It fails where the value is not a single-precision number: the setter stores it
  into the \<^verbatim>\<open>Float32Array\<close>, which rounds it. For the matrix \<open>(4097, 0, 0, 1, 0, 0)\<close>
  multiplied by itself, \<open>rhs.a*a + rhs.b*c\<close> is \<open>16785409\<close> and the \<open>a\<close> that is stored is
  \<open>16785408\<close>.
\<close>

theorem multiply_stores_single_counterexample:
  "a (fst (multiply
         (\<lambda>r. initialize (Some (Fin 4097)) (Some (Fin 0)) (Some (Fin 0)) (Some (Fin 1)) None None)
         0 0 None) 0) = Fin 16785408 \<and>
   a (initialize (Some (Fin 4097)) (Some (Fin 0)) (Some (Fin 0)) (Some (Fin 1)) None None) *
   a (initialize (Some (Fin 4097)) (Some (Fin 0)) (Some (Fin 0)) (Some (Fin 1)) None None) +
   b (initialize (Some (Fin 4097)) (Some (Fin 0)) (Some (Fin 0)) (Some (Fin 1)) None None) *
   c (initialize (Some (Fin 4097)) (Some (Fin 0)) (Some (Fin 0)) (Some (Fin 1)) None None)
     = Fin 16785409"
  by (simp add: multiply_def initialize_def Let_def getters round_single_16785409)

text \<open>
  C1, amended: \<open>multiply(rhs, out)\<close> writes, into \<open>out\<close> if it is supplied and into \<open>this\<close>
  otherwise, the six values \<open>a' = rhs.a*a + rhs.b*c\<close>, \<open>b' = rhs.a*b + rhs.b*d\<close>,
  \<open>c' = rhs.c*a + rhs.d*c\<close>, \<open>d' = rhs.c*b + rhs.d*d\<close>, \<open>e' = rhs.e*a + rhs.f*c + e\<close>,
  \<open>f' = rhs.e*b + rhs.f*d + f\<close>, each computed in double precision from the scalars of
  \<open>this\<close> and \<open>rhs\<close> at call entry and rounded to single precision by the store. The store
  after the call is the store before it with these six elements of the destination
  replaced, whichever of \<open>this\<close>, \<open>rhs\<close> and \<open>out\<close> are the same instance: in particular for
  \<open>rhs = this\<close> with \<open>out\<close> omitted.
\<close>

theorem multiply_writes_product:
  "multiply h this rhs out =
     (let dest = (case out of None \<Rightarrow> this | Some r \<Rightarrow> r) in
      (h(dest := (h dest)\<lparr>
           matrix_0 := Float32 (a (h rhs) * a (h this) + b (h rhs) * c (h this)),
           matrix_1 := Float32 (a (h rhs) * b (h this) + b (h rhs) * d (h this)),
           matrix_2 := Float32 (c (h rhs) * a (h this) + d (h rhs) * c (h this)),
           matrix_3 := Float32 (c (h rhs) * b (h this) + d (h rhs) * d (h this)),
           matrix_4 := Float32 (e (h rhs) * a (h this) + f (h rhs) * c (h this) + e (h this)),
           matrix_5 := Float32 (e (h rhs) * b (h this) + f (h rhs) * d (h this) + f (h this))\<rparr>),
       dest)) \<and>
   (let h' = fst (multiply h this rhs out); dest = snd (multiply h this rhs out) in
      a (h' dest) = Math_fround (a (h rhs) * a (h this) + b (h rhs) * c (h this)) \<and>
      b (h' dest) = Math_fround (a (h rhs) * b (h this) + b (h rhs) * d (h this)) \<and>
      c (h' dest) = Math_fround (c (h rhs) * a (h this) + d (h rhs) * c (h this)) \<and>
      d (h' dest) = Math_fround (c (h rhs) * b (h this) + d (h rhs) * d (h this)) \<and>
      e (h' dest) = Math_fround (e (h rhs) * a (h this) + f (h rhs) * c (h this) + e (h this)) \<and>
      f (h' dest) = Math_fround (e (h rhs) * b (h this) + f (h rhs) * d (h this) + f (h this)))"
  by (simp add: multiply_def Let_def getters)

text \<open>
  C3, as stated: \<open>translate(x, y)\<close> sets \<open>tx' = a*x + c*y + tx\<close>. It fails where that value
  is not a single-precision number: on the identity, \<open>translate(16777217, 0)\<close> computes
  \<open>16777217\<close> and stores \<open>tx = 16777216\<close>.
\<close>

theorem translate_stores_single_counterexample:
  "e (translate (initialize None None None None None None) (Fin 16777217) (Fin 0))
     = Fin 16777216 \<and>
   a (initialize None None None None None None) * Fin 16777217 +
   c (initialize None None None None None None) * Fin 0 +
   e (initialize None None None None None None) = Fin 16777217"
  by (simp add: translate_def initialize_def Let_def getters round_single_16777217)

text \<open>
  C3, amended: \<open>translate(x, y)\<close> sets \<open>tx'\<close> to \<open>a*x + c*y + tx\<close> and \<open>ty'\<close> to
  \<open>b*x + d*y + ty\<close>, each computed in double precision and rounded to single precision by
  the store, and leaves \<open>a\<close>, \<open>b\<close>, \<open>c\<close>, \<open>d\<close> as they are; from the identity,
  \<open>translate(5, 0)\<close> and then \<open>translate(0, 3)\<close> give \<open>tx = 5\<close> and \<open>ty = 3\<close>.
\<close>

theorem translate_sets_translation:
  "e (translate m x y) = Math_fround (a m * x + c m * y + e m) \<and>
   f (translate m x y) = Math_fround (b m * x + d m * y + f m) \<and>
   a (translate m x y) = a m \<and> b (translate m x y) = b m \<and>
   c (translate m x y) = c m \<and> d (translate m x y) = d m \<and>
   e (translate (translate (loadIdentity m) (Fin 5) (Fin 0)) (Fin 0) (Fin 3)) = Fin 5 \<and>
   f (translate (translate (loadIdentity m) (Fin 5) (Fin 0)) (Fin 0) (Fin 3)) = Fin 3"
  by (simp add: translate_def loadIdentity_def Let_def getters)

text \<open>
  C4, as stated: \<open>applyITRS\<close> sets exactly \<open>tx = x\<close>. It fails where \<open>x\<close> is not a
  single-precision number: \<open>applyITRS(16777217, 0, 0, 1, 1)\<close> stores \<open>tx = 16777216\<close>.
\<close>

theorem applyITRS_stores_single_counterexample:
  "e (applyITRS (initialize None None None None None None)
        (Fin 16777217) (Fin 0) (Fin 0) (Fin 1) (Fin 1) None None) = Fin 16777216 \<and>
   e (applyITRS (initialize None None None None None None)
        (Fin 16777217) (Fin 0) (Fin 0) (Fin 1) (Fin 1) None None) \<noteq> Fin 16777217"
  by (simp add: applyITRS_def Let_def getters round_single_16777217)

text \<open>
  C4, amended: \<open>applyITRS(x, y, rotation, scaleX, scaleY, skewX, skewY)\<close>, where an omitted
  \<open>skewX\<close> or \<open>skewY\<close> is 0, sets \<open>tx\<close> to \<open>x\<close>, \<open>ty\<close> to \<open>y\<close>, \<open>a\<close> to
  \<open>cos(rotation - skewY)*scaleX\<close>, \<open>b\<close> to \<open>sin(rotation - skewY)*scaleX\<close>, \<open>c\<close> to
  \<open>-sin(rotation + skewX)*scaleY\<close> and \<open>d\<close> to \<open>cos(rotation + skewX)*scaleY\<close>, each
  rounded to single precision by the store, and nothing else of the instance.
\<close>

theorem applyITRS_sets_matrix:
  "applyITRS m x y rotation scale_x scale_y skewX skewY =
     (let kx = (case skewX of None \<Rightarrow> Fin 0 | Some v \<Rightarrow> v);
          ky = (case skewY of None \<Rightarrow> Fin 0 | Some v \<Rightarrow> v)
      in m\<lparr>matrix_0 := Float32 (Math_cos (rotation - ky) * scale_x),
           matrix_1 := Float32 (Math_sin (rotation - ky) * scale_x),
           matrix_2 := Float32 (- Math_sin (rotation + kx) * scale_y),
           matrix_3 := Float32 (Math_cos (rotation + kx) * scale_y),
           matrix_4 := Float32 x,
           matrix_5 := Float32 y\<rparr>) \<and>
   (let m' = applyITRS m x y rotation scale_x scale_y skewX skewY;
        kx = (case skewX of None \<Rightarrow> Fin 0 | Some v \<Rightarrow> v);
        ky = (case skewY of None \<Rightarrow> Fin 0 | Some v \<Rightarrow> v)
    in e m' = Math_fround x \<and> f m' = Math_fround y \<and>
       a m' = Math_fround (Math_cos (rotation - ky) * scale_x) \<and>
       b m' = Math_fround (Math_sin (rotation - ky) * scale_x) \<and>
       c m' = Math_fround (- Math_sin (rotation + kx) * scale_y) \<and>
       d m' = Math_fround (Math_cos (rotation + kx) * scale_y))"
  by (simp add: applyITRS_def Let_def getters)

text \<open>
  C10, as stated: after \<open>multiplyWithOffset(src, offsetX, offsetY)\<close> the state is the one
  that \<open>translate(offsetX, offsetY)\<close> followed by \<open>multiply(src)\<close> in place gives. It fails
  in two ways. When \<open>src\<close> is \<open>this\<close>, \<open>multiply\<close> reads the translation that \<open>translate\<close>
  has just written, while \<open>multiplyWithOffset\<close> reads the one of before the call: on the
  identity with the offset \<open>(1, 0)\<close> the first gives \<open>tx = 1\<close> and the second \<open>tx = 2\<close>.
  When \<open>src\<close> is another instance, \<open>translate\<close> rounds the translated offset to single
  precision in its store, while \<open>multiplyWithOffset\<close> keeps it as a double: on the
  identity with the offset \<open>(16777217, 0)\<close> and a \<open>src\<close> of translation \<open>(-16777216, 0)\<close>
  the first gives \<open>tx = 1\<close> and the second \<open>tx = 0\<close>.
\<close>

theorem multiplyWithOffset_counterexample:
  "e (multiplyWithOffset (\<lambda>r. initialize None None None None None None) 0 0
        (Fin 1) (Fin 0) 0) = Fin 1 \<and>
   e (fst (multiply (call (\<lambda>r. initialize None None None None None None) 0
                      (\<lambda>m. translate m (Fin 1) (Fin 0))) 0 0 None) 0) = Fin 2 \<and>
   e (multiplyWithOffset
        ((\<lambda>r. initialize None None None None None None)
           (1 := initialize None None None None (Some (Fin (- 16777216))) None))
        0 1 (Fin 16777217) (Fin 0) 0) = Fin 1 \<and>
   e (fst (multiply
        (call ((\<lambda>r. initialize None None None None None None)
                 (1 := initialize None None None None (Some (Fin (- 16777216))) None))
           0 (\<lambda>m. translate m (Fin 16777217) (Fin 0))) 0 1 None) 0) = Fin 0"
  by (simp add: multiplyWithOffset_def multiply_def call_def translate_def initialize_def
      Let_def getters round_single_16777217)

text \<open>
  C10, amended: when \<open>src\<close> is another instance than \<open>this\<close>, the two routes give the same
  \<open>a\<close>, \<open>b\<close>, \<open>c\<close> and \<open>d\<close>; and when moreover the translated offset
  \<open>(a*offsetX + c*offsetY + tx, b*offsetX + d*offsetY + ty)\<close> is a pair of single-precision
  numbers, so that the store of \<open>translate\<close> does not round it, the state after
  \<open>multiplyWithOffset(src, offsetX, offsetY)\<close> is the state after
  \<open>translate(offsetX, offsetY)\<close> followed by \<open>multiply(src)\<close> in place.
\<close>

theorem multiplyWithOffset_is_translate_multiply:
  "src \<noteq> this \<longrightarrow>
   a (multiplyWithOffset h this src offsetX offsetY this) =
     a (fst (multiply (call h this (\<lambda>m. translate m offsetX offsetY)) this src None) this) \<and>
   b (multiplyWithOffset h this src offsetX offsetY this) =
     b (fst (multiply (call h this (\<lambda>m. translate m offsetX offsetY)) this src None) this) \<and>
   c (multiplyWithOffset h this src offsetX offsetY this) =
     c (fst (multiply (call h this (\<lambda>m. translate m offsetX offsetY)) this src None) this) \<and>
   d (multiplyWithOffset h this src offsetX offsetY this) =
     d (fst (multiply (call h this (\<lambda>m. translate m offsetX offsetY)) this src None) this) \<and>
   (Math_fround (a (h this) * offsetX + c (h this) * offsetY + e (h this)) =
      a (h this) * offsetX + c (h this) * offsetY + e (h this) \<and>
    Math_fround (b (h this) * offsetX + d (h this) * offsetY + f (h this)) =
      b (h this) * offsetX + d (h this) * offsetY + f (h this) \<longrightarrow>
    multiplyWithOffset h this src offsetX offsetY =
      fst (multiply (call h this (\<lambda>m. translate m offsetX offsetY)) this src None))"
  by (simp add: multiplyWithOffset_def multiply_def call_def translate_def Let_def getters
      times_number_commute)

theorem multiplyWithOffset_is_translate_multiply_witness:
  "(1::nat) \<noteq> 0 \<and>
   Math_fround (Fin 1 * Fin 5 + Fin 0 * Fin 3 + Fin 0) = Fin 1 * Fin 5 + Fin 0 * Fin 3 + Fin 0 \<and>
   Math_fround (Fin 0 * Fin 5 + Fin 1 * Fin 3 + Fin 0) = Fin 0 * Fin 5 + Fin 1 * Fin 3 + Fin 0 \<and>
   multiplyWithOffset (\<lambda>r. initialize None None None None None None) 0 1 (Fin 5) (Fin 3) =
   fst (multiply (call (\<lambda>r. initialize None None None None None None) 0
                   (\<lambda>m. translate m (Fin 5) (Fin 3))) 0 1 None)"
proof -
  have "a (initialize None None None None None None) = Fin 1"
    "b (initialize None None None None None None) = Fin 0"
    "c (initialize None None None None None None) = Fin 0"
    "d (initialize None None None None None None) = Fin 1"
    "e (initialize None None None None None None) = Fin 0"
    "f (initialize None None None None None None) = Fin 0"
    by (simp_all add: initialize_def getters)
  then show ?thesis
    using multiplyWithOffset_is_translate_multiply
      [of 1 0 "\<lambda>r. initialize None None None None None None" "Fin 5" "Fin 3"]
    by simp
qed

section \<open>The frame of the calls\<close>

text \<open>
  C9: a call \<open>multiply(rhs, out)\<close> with an \<open>out\<close> that is not \<open>this\<close> leaves \<open>this\<close> as it
  was, and \<open>applyInverse(x, y, output)\<close> leaves the matrix as it was, for every input.
\<close>

theorem out_parameter_frame:
  "(out \<noteq> this \<longrightarrow> fst (multiply h this rhs (Some out)) this = h this) \<and>
   fst (applyInverse m x y output) = m"
  by (simp add: multiply_def applyInverse_def Let_def)

theorem out_parameter_frame_witness:
  "(1::nat) \<noteq> 0 \<and>
   fst (multiply (\<lambda>r. initialize None None None None None None) 0 0 (Some 1)) 0 =
     initialize None None None None None None \<and>
   fst (applyInverse (initialize None None None None None None) (Fin 3) (Fin 4) None) =
     initialize None None None None None None"
  using out_parameter_frame
    [of 1 0 "\<lambda>r. initialize None None None None None None" 0
        "initialize None None None None None None" "Fin 3" "Fin 4" None]
  by simp

section \<open>Points and the inverse\<close>











section \<open>The degenerate inverse\<close>

text \<open>
  C5: when the determinant \<open>a*d - b*c\<close> is exactly 0, \<open>invert()\<close> and \<open>applyInverse()\<close>
  still return (they have no error result), and what they return is not finite: each of the
  six scalars of the inverted matrix and each coordinate of the point is an infinity or NaN.
\<close>

theorem degenerate_inverse_not_finite:
  assumes "a m * d m - b m * c m = Fin 0"
  shows "\<not> finite_number (a (invert m)) \<and> \<not> finite_number (b (invert m)) \<and>
         \<not> finite_number (c (invert m)) \<and> \<not> finite_number (d (invert m)) \<and>
         \<not> finite_number (e (invert m)) \<and> \<not> finite_number (f (invert m)) \<and>
         \<not> finite_number (point_x (snd (applyInverse m x y output))) \<and>
         \<not> finite_number (point_y (snd (applyInverse m x y output)))"
proof -
  have inv: "\<not> finite_number (a (invert m)) \<and> \<not> finite_number (b (invert m)) \<and>
         \<not> finite_number (c (invert m)) \<and> \<not> finite_number (d (invert m)) \<and>
         \<not> finite_number (e (invert m)) \<and> \<not> finite_number (f (invert m))"
    unfolding invert_def Let_def assms
    by (simp add: getters not_finite_div0 not_finite_fround)
  have "(a m * d m) + (c m * - b m) = a m * d m - b m * c m"
    by (simp add: minus_number_def times_uminus_right times_number_commute[of "c m"])
  then have id: "Fin 1 / ((a m * d m) + (c m * - b m)) = PInf"
    using assms by simp
  have "\<not> finite_number (point_x (snd (applyInverse m x y output)))"
    by (simp add: applyInverse_def Let_def id not_finite_plus1 not_finite_times1
        not_finite_times_PInf)
  moreover have "\<not> finite_number (point_y (snd (applyInverse m x y output)))"
    by (simp add: applyInverse_def Let_def id not_finite_plus1 not_finite_times1
        not_finite_times_PInf)
  ultimately show ?thesis using inv by simp
qed

theorem degenerate_inverse_not_finite_witness:
  "Fin 0 * Fin 0 - Fin 0 * Fin 0 = Fin 0 \<and>
   a (invert (initialize (Some (Fin 0)) (Some (Fin 0)) (Some (Fin 0)) (Some (Fin 0)) None None))
     = NaN \<and>
   \<not> finite_number
       (a (invert (initialize (Some (Fin 0)) (Some (Fin 0)) (Some (Fin 0)) (Some (Fin 0)) None None))) \<and>
   \<not> finite_number
       (point_x (snd (applyInverse
          (initialize (Some (Fin 0)) (Some (Fin 0)) (Some (Fin 0)) (Some (Fin 0)) None None)
          (Fin 3) (Fin 4) None)))"
proof -
  have "a (initialize (Some (Fin 0)) (Some (Fin 0)) (Some (Fin 0)) (Some (Fin 0)) None None) = Fin 0"
    "b (initialize (Some (Fin 0)) (Some (Fin 0)) (Some (Fin 0)) (Some (Fin 0)) None None) = Fin 0"
    "c (initialize (Some (Fin 0)) (Some (Fin 0)) (Some (Fin 0)) (Some (Fin 0)) None None) = Fin 0"
    "d (initialize (Some (Fin 0)) (Some (Fin 0)) (Some (Fin 0)) (Some (Fin 0)) None None) = Fin 0"
    by (simp_all add: initialize_def getters)
  moreover have
    "a (invert (initialize (Some (Fin 0)) (Some (Fin 0)) (Some (Fin 0)) (Some (Fin 0)) None None))
       = NaN"
    by (simp add: invert_def initialize_def Let_def getters)
  ultimately show ?thesis
    using degenerate_inverse_not_finite
      [of "initialize (Some (Fin 0)) (Some (Fin 0)) (Some (Fin 0)) (Some (Fin 0)) None None"
          "Fin 3" "Fin 4" None]
    by simp
qed

section \<open>Decomposition\<close>

text \<open>
  The product of two single-precision numbers is a double, so the squares under
  \<open>scaleX\<close> and \<open>scaleY\<close> are exact.
\<close>

lemma representable_times_single:
  assumes "representable 24 (- 126) 127 x" "representable 24 (- 126) 127 y"
  shows "representable 53 (- 1022) 1023 (x * y)"
proof -
  from assms obtain n1 j1 n2 j2 where
    x: "x = of_int n1 * pow2 j1" "\<bar>n1\<bar> \<le> 2 ^ 24" "- 149 \<le> j1" "\<bar>x\<bar> < pow2 128" and
    y: "y = of_int n2 * pow2 j2" "\<bar>n2\<bar> \<le> 2 ^ 24" "- 149 \<le> j2" "\<bar>y\<bar> < pow2 128"
    unfolding representable_def by auto
  have "x * y = of_int (n1 * n2) * pow2 (j1 + j2)"
    by (simp add: x(1) y(1) pow2_add)
  moreover have "\<bar>n1 * n2\<bar> \<le> 2 ^ 24 * 2 ^ 24"
    unfolding abs_mult using x(2) y(2) by (intro mult_mono) simp_all
  then have "\<bar>n1 * n2\<bar> \<le> 2 ^ 53" by simp
  moreover have "- 1022 - int 53 + 1 \<le> j1 + j2" using x(3) y(3) by simp
  moreover have "\<bar>x * y\<bar> < pow2 (1023 + 1)"
  proof -
    have "\<bar>x * y\<bar> \<le> pow2 128 * pow2 128"
      unfolding abs_mult using x(4) y(4) by (intro mult_mono) simp_all
    also have "\<dots> = pow2 256" by (simp flip: pow2_add)
    also have "\<dots> < pow2 (1023 + 1)" by simp
    finally show ?thesis .
  qed
  ultimately show ?thesis
    unfolding representable_def by blast
qed

text \<open>
  For single-precision \<open>p\<close> and \<open>q\<close>, not both zero, a numerator no larger than \<open>p\<close> over
  \<open>sqrt(p*p + q*q)\<close> is a number of \<open>[-1, 1]\<close>, also as the doubles compute it.
\<close>

lemma unit_quotient:
  assumes rp: "representable 24 (- 126) 127 p" and rq: "representable 24 (- 126) 127 q"
    and nz: "p \<noteq> 0 \<or> q \<noteq> 0" and t: "\<bar>t\<bar> = \<bar>p\<bar>"
  shows "\<exists>w. Fin t / Math_sqrt (Fin p * Fin p + Fin q * Fin q) = Fin w \<and> - 1 \<le> w \<and> w \<le> 1"
proof -
  have pp: "round_double (p * p) = Fin (p * p)" and qq: "round_double (q * q) = Fin (q * q)"
    using representable_times_single[OF rp rp] representable_times_single[OF rq rq]
    by (simp_all add: round_double_def ieee_round_exact)
  have "Fin (p * p) \<le> round_double (p * p + q * q)"
    using round_double_mono[of "p * p" "p * p + q * q"]
      representable_times_single[OF rp rp]
    by (simp add: round_double_def ieee_round_exact)
  moreover have "Fin (q * q) \<le> round_double (p * p + q * q)"
    using round_double_mono[of "q * q" "p * p + q * q"]
      representable_times_single[OF rq rq]
    by (simp add: round_double_def ieee_round_exact)
  ultimately consider (fin) s where "round_double (p * p + q * q) = Fin s" "p * p \<le> s" "q * q \<le> s"
    | (inf) "round_double (p * p + q * q) = PInf"
    by (cases "round_double (p * p + q * q)") simp_all
  then show ?thesis
  proof cases
    case fin
    have s0: "0 < s"
    proof -
      have "0 < p * p \<or> 0 < q * q" using nz by (auto simp: zero_less_mult_iff neq_iff)
      then show ?thesis using fin(2,3) by linarith
    qed
    have "\<bar>t\<bar> \<le> sqrt s"
      using fin(2) real_le_rsqrt[of "\<bar>p\<bar>" s] by (simp add: t power2_eq_square)
    then have "t \<le> sqrt s" "- sqrt s \<le> t"
      by linarith+
    then have "- 1 \<le> t / sqrt s" "t / sqrt s \<le> 1"
      using s0 by (simp_all add: pos_le_divide_eq pos_divide_le_eq)
    then have "Fin (- 1) \<le> round_double (t / sqrt s)" "round_double (t / sqrt s) \<le> Fin 1"
      using round_double_mono[of "- 1" "t / sqrt s"] round_double_mono[of "t / sqrt s" 1]
      by simp_all
    then obtain w where "round_double (t / sqrt s) = Fin w" "- 1 \<le> w" "w \<le> 1"
      using Fin_le_imp by blast
    then show ?thesis
      using s0 by (simp add: pp qq fin(1))
  next
    case inf
    then show ?thesis by (simp add: pp qq)
  qed
qed

text \<open>
  C6, as stated: \<open>rotationNormalized\<close> is in \<open>[0, 2\<pi>)\<close> for every matrix. It fails on the
  matrix \<open>(0, -1, 0, 1, 0, 0)\<close>: \<open>b\<close> is not positive, so the accessor returns
  \<open>-acos(a / scaleX) = -acos(0) = -\<pi>/2\<close>, whatever \<^verbatim>\<open>MATH_CONST.TAU\<close> is (here \<open>2\<pi>\<close>
  and \<open>\<pi>/2\<close>).
\<close>

theorem rotationNormalized_negative_counterexample:
  "rotationNormalized (Fin (2 * pi))
     (initialize (Some (Fin 0)) (Some (Fin (- 1))) None None None None) = Fin (- (pi / 2)) \<and>
   rotationNormalized (Fin (pi / 2))
     (initialize (Some (Fin 0)) (Some (Fin (- 1))) None None None None) = Fin (- (pi / 2)) \<and>
   \<not> (Fin 0 \<le> rotationNormalized (Fin (2 * pi))
                  (initialize (Some (Fin 0)) (Some (Fin (- 1))) None None None None))"
proof -
  have "rotationNormalized TAU (initialize (Some (Fin 0)) (Some (Fin (- 1))) None None None None)
          = Fin (- (pi / 2))" for TAU
    by (simp add: rotationNormalized_def initialize_def scaleX_def getters)
  moreover have "\<not> pi \<le> 0"
    using pi_gt_zero by linarith
  ultimately show ?thesis by simp
qed

text \<open>
  C6, amended: for a matrix of finite \<open>a\<close>, \<open>b\<close>, \<open>c\<close>, \<open>d\<close>, \<open>rotationNormalized\<close> is in the
  closed interval \<open>[-\<pi>, \<pi>]\<close> when \<open>a\<close> or \<open>b\<close> is not zero; it is in
  \<open>[TAU - \<pi>, TAU + \<pi>]\<close>, for the finite constant \<open>TAU\<close> of the library, when \<open>a\<close> and
  \<open>b\<close> are zero and \<open>c\<close> or \<open>d\<close> is not; and it is exactly 0 when all four are zero.
\<close>

theorem rotationNormalized_range:
  "(finite_number (a m) \<and> finite_number (b m) \<and> (truthy (a m) \<or> truthy (b m)) \<longrightarrow>
      - Math_PI \<le> rotationNormalized TAU m \<and> rotationNormalized TAU m \<le> Math_PI) \<and>
   (a m = Fin 0 \<and> b m = Fin 0 \<and> finite_number (c m) \<and> finite_number (d m) \<and>
    (truthy (c m) \<or> truthy (d m)) \<and> finite_number TAU \<longrightarrow>
      TAU - Math_PI \<le> rotationNormalized TAU m \<and> rotationNormalized TAU m \<le> TAU + Math_PI) \<and>
   (a m = Fin 0 \<and> b m = Fin 0 \<and> c m = Fin 0 \<and> d m = Fin 0 \<longrightarrow>
      rotationNormalized TAU m = Fin 0)"
proof -
  have zero: "a m = Fin 0 \<and> b m = Fin 0 \<and> c m = Fin 0 \<and> d m = Fin 0 \<longrightarrow>
      rotationNormalized TAU m = Fin 0"
    by (simp add: rotationNormalized_def)
  have first: "- Math_PI \<le> rotationNormalized TAU m \<and> rotationNormalized TAU m \<le> Math_PI"
    if fin: "finite_number (a m)" "finite_number (b m)" and nz: "truthy (a m) \<or> truthy (b m)"
  proof -
    from fin obtain p q where pq: "a m = Fin p" "b m = Fin q"
      unfolding finite_number_iff by blast
    from nz pq have nz': "p \<noteq> 0 \<or> q \<noteq> 0" by simp
    have rp: "representable 24 (- 126) 127 p" "representable 24 (- 126) 127 q"
      using pq by (auto simp: getters intro: float32_representable)
    from unit_quotient[OF rp nz', of p] obtain w where
      w: "a m / scaleX m = Fin w" "- 1 \<le> w" "w \<le> 1"
      by (auto simp: scaleX_def pq)
    have lo: "0 \<le> arccos w" and hi: "arccos w \<le> pi"
      using w by (simp_all add: arccos_lbound arccos_ubound)
    show ?thesis
      using nz lo hi pi_ge_zero w unfolding rotationNormalized_def Math_PI_def
      by (simp add: pq)
  qed
  have second:
    "TAU - Math_PI \<le> rotationNormalized TAU m \<and> rotationNormalized TAU m \<le> TAU + Math_PI"
    if ab: "a m = Fin 0" "b m = Fin 0" and fin: "finite_number (c m)" "finite_number (d m)"
      and nz: "truthy (c m) \<or> truthy (d m)" and tau: "finite_number TAU"
  proof -
    from fin tau obtain r s t where rs: "c m = Fin r" "d m = Fin s" and t: "TAU = Fin t"
      unfolding finite_number_iff by blast
    from nz rs have nz': "r \<noteq> 0 \<or> s \<noteq> 0" by simp
    have rp: "representable 24 (- 126) 127 r" "representable 24 (- 126) 127 s"
      using rs by (auto simp: getters intro: float32_representable)
    from unit_quotient[OF rp nz', of r] obtain w where
      w: "c m / scaleY m = Fin w" "- 1 \<le> w" "w \<le> 1"
      by (auto simp: scaleY_def rs)
    from unit_quotient[OF rp nz', of "- r"] obtain v where
      v: "- c m / scaleY m = Fin v" "- 1 \<le> v" "v \<le> 1"
      by (auto simp: scaleY_def rs)
    have lo: "0 \<le> arccos w" "0 \<le> arccos v" and hi: "arccos w \<le> pi" "arccos v \<le> pi"
      using w v by (simp_all add: arccos_lbound arccos_ubound)
    show ?thesis
      using nz lo hi pi_ge_zero w v unfolding rotationNormalized_def Math_PI_def
      by (simp add: ab rs t round_double_mono)
  qed
  from zero first second show ?thesis by blast
qed

theorem rotationNormalized_range_witness:
  "finite_number (Fin 0) \<and> finite_number (Fin (- 1)) \<and> (truthy (Fin 0) \<or> truthy (Fin (- 1))) \<and>
   - Math_PI \<le> rotationNormalized (Fin (2 * pi))
                  (initialize (Some (Fin 0)) (Some (Fin (- 1))) None None None None) \<and>
   rotationNormalized (Fin (2 * pi))
     (initialize (Some (Fin 0)) (Some (Fin (- 1))) None None None None) \<le> Math_PI \<and>
   finite_number (Fin 1) \<and> (truthy (Fin 1) \<or> truthy (Fin 0)) \<and> finite_number (Fin (2 * pi)) \<and>
   Fin (2 * pi) - Math_PI \<le> rotationNormalized (Fin (2 * pi))
     (initialize (Some (Fin 0)) (Some (Fin 0)) (Some (Fin 1)) (Some (Fin 0)) None None) \<and>
   rotationNormalized (Fin (2 * pi))
     (initialize (Some (Fin 0)) (Some (Fin 0)) (Some (Fin 1)) (Some (Fin 0)) None None)
     \<le> Fin (2 * pi) + Math_PI \<and>
   rotationNormalized (Fin (2 * pi))
     (initialize (Some (Fin 0)) (Some (Fin 0)) (Some (Fin 0)) (Some (Fin 0)) None None) = Fin 0"
proof -
  have "a (initialize (Some (Fin 0)) (Some (Fin (- 1))) None None None None) = Fin 0"
    "b (initialize (Some (Fin 0)) (Some (Fin (- 1))) None None None None) = Fin (- 1)"
    "a (initialize (Some (Fin 0)) (Some (Fin 0)) (Some (Fin 1)) (Some (Fin 0)) None None) = Fin 0"
    "b (initialize (Some (Fin 0)) (Some (Fin 0)) (Some (Fin 1)) (Some (Fin 0)) None None) = Fin 0"
    "c (initialize (Some (Fin 0)) (Some (Fin 0)) (Some (Fin 1)) (Some (Fin 0)) None None) = Fin 1"
    "d (initialize (Some (Fin 0)) (Some (Fin 0)) (Some (Fin 1)) (Some (Fin 0)) None None) = Fin 0"
    "a (initialize (Some (Fin 0)) (Some (Fin 0)) (Some (Fin 0)) (Some (Fin 0)) None None) = Fin 0"
    "b (initialize (Some (Fin 0)) (Some (Fin 0)) (Some (Fin 0)) (Some (Fin 0)) None None) = Fin 0"
    "c (initialize (Some (Fin 0)) (Some (Fin 0)) (Some (Fin 0)) (Some (Fin 0)) None None) = Fin 0"
    "d (initialize (Some (Fin 0)) (Some (Fin 0)) (Some (Fin 0)) (Some (Fin 0)) None None) = Fin 0"
    by (simp_all add: initialize_def getters)
  then show ?thesis
    using rotationNormalized_range
        [of "initialize (Some (Fin 0)) (Some (Fin (- 1))) None None None None" "Fin (2 * pi)"]
      rotationNormalized_range
        [of "initialize (Some (Fin 0)) (Some (Fin 0)) (Some (Fin 1)) (Some (Fin 0)) None None"
            "Fin (2 * pi)"]
      rotationNormalized_range
        [of "initialize (Some (Fin 0)) (Some (Fin 0)) (Some (Fin 0)) (Some (Fin 0)) None None"
            "Fin (2 * pi)"]
    by simp
qed

text \<open>
  \<open>decomposeMatrix()\<close> assigns \<open>skewY\<close> only in the branch of the column \<open>(c, d)\<close>: the reset
  before the branches assigns \<open>skewX\<close> twice. In the other two branches the record keeps the
  \<open>skewY\<close> it had.
\<close>

lemma decomposeMatrix_skewY:
  "dm_skewY (decomposedMatrix (decomposeMatrix m)) =
     (if truthy (a m) \<or> truthy (b m) then dm_skewY (decomposedMatrix m)
      else if truthy (c m) \<or> truthy (d m) then
        Some (Math_atan ((a m * c m + b m * d m) / (c m * c m + d m * d m)))
      else dm_skewY (decomposedMatrix m))"
  by (simp add: decomposeMatrix_def Let_def)

text \<open>
  C7: \<open>decomposeMatrix()\<close> recomputes all seven fields of the record from the six scalars.
  The code does not: on a new identity matrix the record it returns has no \<open>skewY\<close>
  (it is \<open>undefined\<close>, as the constructor left it), while the other six fields are set.
\<close>

theorem decomposeMatrix_identity_skewY_undefined:
  "dm_skewY (decomposedMatrix (decomposeMatrix (initialize None None None None None None))) = None \<and>
   dm_skewX (decomposedMatrix (decomposeMatrix (initialize None None None None None None)))
     = Some (Fin 0) \<and>
   dm_rotation (decomposedMatrix (decomposeMatrix (initialize None None None None None None)))
     = Fin 0 \<and>
   dm_scaleX (decomposedMatrix (decomposeMatrix (initialize None None None None None None)))
     = Fin 1 \<and>
   dm_scaleY (decomposedMatrix (decomposeMatrix (initialize None None None None None None)))
     = Fin 1"
  by (simp add: decomposeMatrix_def initialize_def Let_def getters)

section \<open>Interchange\<close>

text \<open>
  C8: \<open>copyToArray()\<close> gives the six scalars in the order \<open>[a, b, c, d, e, f]\<close>, and
  \<open>copyFromArray()\<close> of that array on a new instance (whatever its constructor arguments)
  gives an instance with the same six scalars. The same holds when \<open>copyToArray\<close> writes
  into an array \<open>out\<close> of the caller; the matrix is not changed by \<open>copyToArray\<close>.
\<close>

theorem array_round_trip:
  "snd (copyToArray m None) = [a m, b m, c m, d m, e m, f m] \<and>
   fst (copyToArray m out) = m \<and>
   (let m' = copyFromArray (initialize a0 b0 c0 d0 tx0 ty0) (snd (copyToArray m out))
    in a m' = a m \<and> b m' = b m \<and> c m' = c m \<and> d m' = d m \<and> e m' = e m \<and> f m' = f m)"
  by (cases out)
    (simp_all add: copyToArray_def copyFromArray_def src_at_array_set Let_def getters,
     simp_all add: src_at_def)


end
